theory Spec2Isabelle
  imports Main
begin

section \<open>The BB8 command driver (lib/driver.js)\<close>

text \<open>
  The driver is a JavaScript object whose methods build a payload, hand it to the BLE
  connection together with a completion handler, and return. The connection answers
  later by calling the handler with \<open>(err, data)\<close>. The embedding therefore has three
  parts: the values and functions of the driver, the connection as a queue of handlers
  that are waiting for their answer, and a trace of everything observable (debug lines,
  assignments to the driver's fields, requests given to the connection, calls of the
  caller's functions). The trace begins when the constructor has returned.
\<close>

subsection \<open>JavaScript values\<close>

datatype jsval =
    JUndefined
  | JNull
  | JBool bool
  | JNum int
  | JNaN
  | JStr string
  | JArr "jsval list"
  | JObj nat

text \<open>
  \<open>JArr\<close> stands for every array-like value, a Buffer included; \<open>JObj\<close> for an object
  that is not array-like (an error object, a notifier).
\<close>

text \<open>The test of \<^verbatim>\<open>if (error)\<close>: JavaScript's ToBoolean.\<close>

fun truthy :: "jsval \<Rightarrow> bool" where
  "truthy JUndefined = False"
| "truthy JNull = False"
| "truthy (JBool b) = b"
| "truthy (JNum n) = (n \<noteq> 0)"
| "truthy JNaN = False"
| "truthy (JStr s) = (s \<noteq> [])"
| "truthy (JArr xs) = True"
| "truthy (JObj a) = True"

text \<open>A formal parameter that the caller did not supply reads as \<^verbatim>\<open>undefined\<close>.\<close>

definition arg :: "nat \<Rightarrow> jsval list \<Rightarrow> jsval" where
  "arg n args = (if n < length args then args ! n else JUndefined)"

subsection \<open>The characteristic addresses (lines 16-24)\<close>

definition BLE_SERVICE :: string where
  "BLE_SERVICE = ''22bb746f2bb075542d6f726568705327''"

definition BLE_WAKE :: string where
  "BLE_WAKE = ''22bb746f2bbf75542d6f726568705327''"

definition BLE_TX_POWER :: string where
  "BLE_TX_POWER = ''22bb746f2bb275542d6f726568705327''"

definition BLE_ANTI_DOS :: string where
  "BLE_ANTI_DOS = ''22bb746f2bbd75542d6f726568705327''"

definition BLE_RSSI :: string where
  "BLE_RSSI = ''22bb746f2bb675542d6f726568705327''"

definition ROBOT_SERVICE :: string where
  "ROBOT_SERVICE = ''22bb746f2ba075542d6f726568705327''"

definition ROBOT_COMMAND :: string where
  "ROBOT_COMMAND = ''22bb746f2ba175542d6f726568705327''"

definition ROBOT_NOTIFY :: string where
  "ROBOT_NOTIFY = ''22bb746f2ba675542d6f726568705327''"

subsection \<open>Errors and outcomes\<close>

text \<open>What a \<^verbatim>\<open>throw\<close> carries: the two built-in errors met here, or any other value.\<close>

datatype js_error = TypeError | RangeError | Thrown jsval

subsection \<open>The packet encoder (hybridgroup-spheron)\<close>

text \<open>
  The options object literal given to every encoder call: a property that the literal
  does not mention is absent (\<open>None\<close>).
\<close>

record options =
  resetTimeout :: "bool option"
  requestAcknowledgement :: "bool option"

text \<open>
  The encoder is a library outside the repository. The driver only calls it, so it is a
  parameter of the model: one function for every entry of \<^verbatim>\<open>Sphero.commands\<close>
  that the driver uses. A call either throws (\<open>Inl\<close>) or returns the packet, some
  JavaScript value (\<open>Inr\<close>).
\<close>

record sphero =
  api_setRGB :: "jsval \<Rightarrow> jsval \<Rightarrow> options \<Rightarrow> js_error + jsval"
  api_roll :: "jsval \<Rightarrow> jsval \<Rightarrow> jsval \<Rightarrow> options \<Rightarrow> js_error + jsval"
  api_setRawMotorValues ::
    "jsval \<Rightarrow> jsval \<Rightarrow> jsval \<Rightarrow> jsval \<Rightarrow> options \<Rightarrow> js_error + jsval"
  api_setStabilization :: "jsval \<Rightarrow> options \<Rightarrow> js_error + jsval"
  api_setDataStreaming ::
    "jsval \<Rightarrow> jsval \<Rightarrow> jsval \<Rightarrow> jsval \<Rightarrow> jsval \<Rightarrow> options \<Rightarrow> js_error + jsval"
  api_getDeviceMode :: "options \<Rightarrow> js_error + jsval"
  api_getRGB :: "options \<Rightarrow> js_error + jsval"
  core_getPowerState :: "options \<Rightarrow> js_error + jsval"
  api_getChassisID :: "options \<Rightarrow> js_error + jsval"

subsection \<open>Node's Buffer constructor\<close>

text \<open>
  \<^verbatim>\<open>new Buffer(value)\<close> on line 354 runs before the connection is called, and it can
  throw. A buffer that was built is kept as the constructor applied to its argument:
  which bytes Node puts into it is not decided in this repository.
\<close>

datatype buffer = Buffer jsval

text \<open>
  \<^verbatim>\<open>buffer.constants.MAX_LENGTH\<close>, the largest size the constructor accepts. Its value
  depends on the release of Node; this is the one of the current 64-bit releases.
\<close>

definition kMaxLength :: int where
  "kMaxLength = 2 ^ 53 - 1"

text \<open>
  The constructor as current Node has it. A number is a size: a negative one, one above
  the limit, or NaN is a RangeError. A string and an array-like value give a buffer.
  Anything else is a TypeError. Running out of memory is not part of the model.
\<close>

fun new_Buffer :: "jsval \<Rightarrow> js_error + buffer" where
  "new_Buffer JUndefined = Inl TypeError"
| "new_Buffer JNull = Inl TypeError"
| "new_Buffer (JBool b) = Inl TypeError"
| "new_Buffer (JNum n) =
     (if 0 \<le> n \<and> n \<le> kMaxLength then Inr (Buffer (JNum n)) else Inl RangeError)"
| "new_Buffer JNaN = Inl RangeError"
| "new_Buffer (JStr s) = Inr (Buffer (JStr s))"
| "new_Buffer (JArr xs) = Inr (Buffer (JArr xs))"
| "new_Buffer (JObj a) = Inl TypeError"

subsection \<open>Callbacks, events and the state\<close>

text \<open>
  Whatever may stand in a callback position. A caller hands over either a value that is
  not a function or a function of its own, which the model knows by a number only. The
  other constructors are the function expressions of the driver itself, each holding the
  \<^verbatim>\<open>callback\<close> variable it closes over:
  \<^item> \<open>DevModeOn_cb1\<close>, \<open>DevModeOn_cb2\<close>, \<open>DevModeOn_cb3\<close>: the three nested functions of
    \<^verbatim>\<open>devModeOn\<close> (lines 118, 119 and 120);
  \<^item> \<open>Write_cb\<close>: the handler of \<^verbatim>\<open>_writeServiceCharacteristic\<close> (lines 355-359);
  \<^item> \<open>GetCharacteristic_cb\<close>: the handler of \<^verbatim>\<open>getServiceCharacteristic\<close>
    (lines 368-375).
\<close>

datatype callback =
    NonFunction jsval
  | UserFunction nat
  | DevModeOn_cb1 callback
  | DevModeOn_cb2 callback
  | DevModeOn_cb3 callback
  | Write_cb callback
  | GetCharacteristic_cb callback

text \<open>\<^verbatim>\<open>typeof callback === "function"\<close>\<close>

fun typeof_function :: "callback \<Rightarrow> bool" where
  "typeof_function (NonFunction v) = False"
| "typeof_function (UserFunction f) = True"
| "typeof_function (DevModeOn_cb1 cb) = True"
| "typeof_function (DevModeOn_cb2 cb) = True"
| "typeof_function (DevModeOn_cb3 cb) = True"
| "typeof_function (Write_cb cb) = True"
| "typeof_function (GetCharacteristic_cb cb) = True"

text \<open>
  What an observer of the driver sees, in the order it happens: a line given to
  \<^verbatim>\<open>Logger.debug\<close>, an assignment \<^verbatim>\<open>this.heading = value\<close>, a request given to the
  connection, a call of a caller's function with its argument list.
\<close>

datatype event =
    Debug string "jsval list"
  | AssignHeading jsval
  | WriteServiceCharacteristic string string buffer
  | ReadServiceCharacteristic string string
  | GetCharacteristic string string
  | Call nat "jsval list"

fun is_write :: "event \<Rightarrow> bool" where
  "is_write (WriteServiceCharacteristic s c b) = True"
| "is_write e = False"

fun is_call :: "event \<Rightarrow> bool" where
  "is_call (Call f args) = True"
| "is_call e = False"

text \<open>The functions that the file assigns to \<^verbatim>\<open>BB8Driver.prototype\<close>.\<close>

datatype driver_method =
    M_start | M_halt
  | M_wake | M_setTXPower | M_devModeOn | M_setAntiDos
  | M_setRGB | M_roll | M_stop | M_setRawMotorValues | M_setStabilization
  | M_setDataStreaming | M_getDeviceMode | M_getRGB | M_getPowerState | M_getChassisID
  | M_writeServiceCharacteristic | M_readServiceCharacteristic
  | M_getServiceCharacteristic

text \<open>The fields that the constructor sets on \<^verbatim>\<open>this\<close> (lines 26-56).\<close>

record driver =
  commands :: "(string \<times> driver_method) list"
  MotorOff :: int
  MotorForward :: int
  MotorReverse :: int
  MotorBrake :: int
  MotorIgnore :: int
  heading :: jsval

text \<open>
  The driver together with its surroundings: the trace so far, and the handlers that the
  connection holds for requests it has not answered yet, oldest first.
\<close>

record world =
  this :: driver
  trace :: "event list"
  pending :: "callback list"

definition writes :: "world \<Rightarrow> event list" where
  "writes w = filter is_write (trace w)"

definition calls :: "world \<Rightarrow> event list" where
  "calls w = filter is_call (trace w)"

text \<open>A call either returns or throws; both leave a state behind.\<close>

datatype outcome = Returned world | Threw js_error world

fun state_of :: "outcome \<Rightarrow> world" where
  "state_of (Returned w) = w"
| "state_of (Threw e w) = w"

fun thrown :: "outcome \<Rightarrow> js_error option" where
  "thrown (Returned w) = None"
| "thrown (Threw e w) = Some e"

definition Logger_debug :: "string \<Rightarrow> jsval list \<Rightarrow> world \<Rightarrow> world" where
  "Logger_debug msg args w = w\<lparr>trace := trace w @ [Debug msg args]\<rparr>"

subsection \<open>The connection\<close>

text \<open>
  The connection belongs to the framework. Its three primitives are asynchronous: a call
  records the request, keeps the handler and returns; the answer comes in a later step
  (\<open>connection_answers\<close> below).
\<close>

definition connection_writeServiceCharacteristic ::
  "string \<Rightarrow> string \<Rightarrow> buffer \<Rightarrow> callback \<Rightarrow> world \<Rightarrow> world" where
  "connection_writeServiceCharacteristic s c b handler w =
     w\<lparr>trace := trace w @ [WriteServiceCharacteristic s c b],
       pending := pending w @ [handler]\<rparr>"

definition connection_readServiceCharacteristic ::
  "string \<Rightarrow> string \<Rightarrow> callback \<Rightarrow> world \<Rightarrow> world" where
  "connection_readServiceCharacteristic s c handler w =
     w\<lparr>trace := trace w @ [ReadServiceCharacteristic s c],
       pending := pending w @ [handler]\<rparr>"

definition connection_getCharacteristic ::
  "string \<Rightarrow> string \<Rightarrow> callback \<Rightarrow> world \<Rightarrow> world" where
  "connection_getCharacteristic s c handler w =
     w\<lparr>trace := trace w @ [GetCharacteristic s c],
       pending := pending w @ [handler]\<rparr>"

subsection \<open>The BLE interface of the driver (lines 353-376)\<close>

text \<open>
  The argument \<^verbatim>\<open>new Buffer(value)\<close> is evaluated first: when it throws, the connection
  is not called.
\<close>

definition driver_writeServiceCharacteristic ::
  "string \<Rightarrow> string \<Rightarrow> jsval \<Rightarrow> callback \<Rightarrow> world \<Rightarrow> outcome" where
  "driver_writeServiceCharacteristic s c v cb w =
     (case new_Buffer v of
        Inl e \<Rightarrow> Threw e w
      | Inr b \<Rightarrow> Returned (connection_writeServiceCharacteristic s c b (Write_cb cb) w))"

definition driver_readServiceCharacteristic ::
  "string \<Rightarrow> string \<Rightarrow> callback \<Rightarrow> world \<Rightarrow> world" where
  "driver_readServiceCharacteristic s c cb w =
     connection_readServiceCharacteristic s c cb w"

definition getServiceCharacteristic ::
  "string \<Rightarrow> string \<Rightarrow> callback \<Rightarrow> world \<Rightarrow> world" where
  "getServiceCharacteristic s c cb w =
     connection_getCharacteristic s c (GetCharacteristic_cb cb) w"

subsection \<open>BLE commands (lines 79-145)\<close>

definition wake :: "callback \<Rightarrow> world \<Rightarrow> outcome" where
  "wake cb w =
     driver_writeServiceCharacteristic BLE_SERVICE BLE_WAKE (JNum 1) cb
       (Logger_debug ''BB8Driver.wake'' [] w)"

definition setTXPower :: "jsval \<Rightarrow> callback \<Rightarrow> world \<Rightarrow> outcome" where
  "setTXPower level cb w =
     driver_writeServiceCharacteristic BLE_SERVICE BLE_TX_POWER level cb
       (Logger_debug ''BB8Driver.setTXPower (level)'' [level] w)"

text \<open>\<^verbatim>\<open>str.charCodeAt(i)\<close>: the code of the character, NaN outside the string.\<close>

definition charCodeAt :: "string \<Rightarrow> nat \<Rightarrow> jsval" where
  "charCodeAt str i = (if i < length str then JNum (int (of_char (str ! i))) else JNaN)"

text \<open>The loop of \<^verbatim>\<open>setAntiDos\<close> (lines 140-142), with \<open>i\<close> and \<open>bytes\<close> as arguments.\<close>

function setAntiDos_loop :: "string \<Rightarrow> nat \<Rightarrow> jsval list \<Rightarrow> jsval list" where
  "setAntiDos_loop str i bytes =
     (if i < length str then setAntiDos_loop str (Suc i) (bytes @ [charCodeAt str i])
      else bytes)"
  by pat_completeness auto
termination
  by (relation "measure (\<lambda>(str, i, bytes). length str - i)") auto

definition setAntiDos :: "callback \<Rightarrow> world \<Rightarrow> outcome" where
  "setAntiDos cb w =
     (let str = ''011i3'';
          bytes = setAntiDos_loop str 0 []
      in driver_writeServiceCharacteristic BLE_SERVICE BLE_ANTI_DOS (JArr bytes) cb
           (Logger_debug ''BB8Driver.setAntiDos'' [] w))"

definition devModeOn :: "callback \<Rightarrow> world \<Rightarrow> outcome" where
  "devModeOn cb w =
     setAntiDos (DevModeOn_cb1 cb) (Logger_debug ''BB8Driver.devModeOn'' [] w)"

subsection \<open>Calling a callback, and the connection's answer\<close>

text \<open>
  Calling a value with an argument list. A value that is not a function throws a
  TypeError. A caller's function is opaque: the call is recorded. The driver's own
  function expressions run their bodies.
\<close>

fun invoke :: "callback \<Rightarrow> jsval list \<Rightarrow> world \<Rightarrow> outcome" where
  "invoke (NonFunction v) args w = Threw TypeError w"
| "invoke (UserFunction f) args w = Returned (w\<lparr>trace := trace w @ [Call f args]\<rparr>)"
| "invoke (DevModeOn_cb1 cb) args w = setTXPower (JNum 7) (DevModeOn_cb2 cb) w"
| "invoke (DevModeOn_cb2 cb) args w = wake (DevModeOn_cb3 cb) w"
| "invoke (DevModeOn_cb3 cb) args w = invoke cb [arg 0 args, arg 1 args] w"
| "invoke (Write_cb cb) args w =
     (if typeof_function cb then invoke cb [arg 0 args, arg 1 args] w else Returned w)"
| "invoke (GetCharacteristic_cb cb) args w =
     (if truthy (arg 0 args) then invoke cb [arg 0 args] w
      else invoke cb [JNull, arg 1 args] w)"

text \<open>
  The connection answers the request whose handler is at position \<open>i\<close> of the queue
  with \<open>(err, data)\<close>: the handler leaves the queue and is called. Nothing happens when
  there is no such request.
\<close>

definition connection_answers :: "nat \<Rightarrow> jsval \<Rightarrow> jsval \<Rightarrow> world \<Rightarrow> outcome" where
  "connection_answers i err data w =
     (if i < length (pending w)
      then invoke (pending w ! i) [err, data]
             (w\<lparr>pending := take i (pending w) @ drop (Suc i) (pending w)\<rparr>)
      else Returned w)"

subsection \<open>Lifecycle (lines 60-68)\<close>

text \<open>Both call \<^verbatim>\<open>callback()\<close> without looking at what it is.\<close>

definition start :: "callback \<Rightarrow> world \<Rightarrow> outcome" where
  "start cb w = invoke cb [] (Logger_debug ''BB8Driver.start'' [] w)"

definition halt :: "callback \<Rightarrow> world \<Rightarrow> outcome" where
  "halt cb w = invoke cb [] (Logger_debug ''BB8Driver.halt'' [] w)"

subsection \<open>Robot commands (lines 158-340)\<close>

text \<open>
  Each builds its packet with the encoder and hands it to the write primitive. When the
  encoder throws, the command ends there, with what it had done so far.
\<close>

definition setRGB ::
  "sphero \<Rightarrow> jsval \<Rightarrow> jsval \<Rightarrow> callback \<Rightarrow> world \<Rightarrow> outcome" where
  "setRGB enc color persist cb w =
     (let w1 = Logger_debug ''BB8Driver.setRGB (color,persist)'' [color, persist] w
      in case api_setRGB enc color persist
                \<lparr>resetTimeout = Some True, requestAcknowledgement = None\<rparr> of
           Inl e \<Rightarrow> Threw e w1
         | Inr packet \<Rightarrow>
             driver_writeServiceCharacteristic ROBOT_SERVICE ROBOT_COMMAND packet cb w1)"

text \<open>
  \<open>roll\<close> (lines 178-194): the debug line, the assignment to \<^verbatim>\<open>this.heading\<close>, the
  encoder call and the write, in this order.
\<close>

definition roll ::
  "sphero \<Rightarrow> jsval \<Rightarrow> jsval \<Rightarrow> jsval \<Rightarrow> callback \<Rightarrow> world \<Rightarrow> outcome" where
  "roll enc speed hdg rstate cb w =
     (let w1 = Logger_debug ''BB8Driver.roll (speed,heading,state)'' [speed, hdg, rstate] w;
          w2 = w1\<lparr>this := (this w1)\<lparr>heading := hdg\<rparr>,
                  trace := trace w1 @ [AssignHeading hdg]\<rparr>
      in case api_roll enc speed hdg rstate
                \<lparr>resetTimeout = Some True, requestAcknowledgement = None\<rparr> of
           Inl e \<Rightarrow> Threw e w2
         | Inr packet \<Rightarrow>
             driver_writeServiceCharacteristic ROBOT_SERVICE ROBOT_COMMAND packet cb w2)"

definition stop :: "sphero \<Rightarrow> callback \<Rightarrow> world \<Rightarrow> outcome" where
  "stop enc cb w =
     (let w1 = Logger_debug ''BB8Driver.stop'' [] w
      in roll enc (JNum 0) (heading (this w1)) (JNum 1) cb w1)"

definition setRawMotorValues ::
  "sphero \<Rightarrow> jsval \<Rightarrow> jsval \<Rightarrow> jsval \<Rightarrow> jsval \<Rightarrow> callback \<Rightarrow> world \<Rightarrow> outcome" where
  "setRawMotorValues enc lm lp rm rp cb w =
     (let w1 = Logger_debug ''BB8Driver.setRawMotorValues'' [] w
      in case api_setRawMotorValues enc lm lp rm rp
                \<lparr>resetTimeout = Some True, requestAcknowledgement = None\<rparr> of
           Inl e \<Rightarrow> Threw e w1
         | Inr packet \<Rightarrow>
             driver_writeServiceCharacteristic ROBOT_SERVICE ROBOT_COMMAND packet cb w1)"

definition setStabilization ::
  "sphero \<Rightarrow> jsval \<Rightarrow> callback \<Rightarrow> world \<Rightarrow> outcome" where
  "setStabilization enc enable cb w =
     (let w1 = Logger_debug ''BB8Driver.setStabilization'' [] w
      in case api_setStabilization enc enable
                \<lparr>resetTimeout = Some True, requestAcknowledgement = None\<rparr> of
           Inl e \<Rightarrow> Threw e w1
         | Inr packet \<Rightarrow>
             driver_writeServiceCharacteristic ROBOT_SERVICE ROBOT_COMMAND packet cb w1)"

definition setDataStreaming ::
  "sphero \<Rightarrow> jsval \<Rightarrow> jsval \<Rightarrow> jsval \<Rightarrow> jsval \<Rightarrow> jsval \<Rightarrow> callback \<Rightarrow> world \<Rightarrow> outcome" where
  "setDataStreaming enc sensorRateDivisor frames smask packetCount mask2 cb w =
     (let w1 = Logger_debug ''BB8Driver.setDataStreaming'' [] w
      in case api_setDataStreaming enc sensorRateDivisor frames smask packetCount mask2
                \<lparr>resetTimeout = Some True, requestAcknowledgement = Some True\<rparr> of
           Inl e \<Rightarrow> Threw e w1
         | Inr packet \<Rightarrow>
             driver_writeServiceCharacteristic ROBOT_SERVICE ROBOT_COMMAND packet cb w1)"

definition getDeviceMode :: "sphero \<Rightarrow> callback \<Rightarrow> world \<Rightarrow> outcome" where
  "getDeviceMode enc cb w =
     (let w1 = Logger_debug ''BB8Driver.getDeviceMode'' [] w
      in case api_getDeviceMode enc
                \<lparr>resetTimeout = Some True, requestAcknowledgement = Some True\<rparr> of
           Inl e \<Rightarrow> Threw e w1
         | Inr packet \<Rightarrow>
             driver_writeServiceCharacteristic ROBOT_SERVICE ROBOT_COMMAND packet cb w1)"

definition getRGB :: "sphero \<Rightarrow> callback \<Rightarrow> world \<Rightarrow> outcome" where
  "getRGB enc cb w =
     (let w1 = Logger_debug ''BB8Driver.getRGB'' [] w
      in case api_getRGB enc
                \<lparr>resetTimeout = Some True, requestAcknowledgement = Some True\<rparr> of
           Inl e \<Rightarrow> Threw e w1
         | Inr packet \<Rightarrow>
             driver_writeServiceCharacteristic ROBOT_SERVICE ROBOT_COMMAND packet cb w1)"

definition getPowerState :: "sphero \<Rightarrow> callback \<Rightarrow> world \<Rightarrow> outcome" where
  "getPowerState enc cb w =
     (let w1 = Logger_debug ''BB8Driver.getPowerState'' [] w
      in case core_getPowerState enc
                \<lparr>resetTimeout = Some True, requestAcknowledgement = Some True\<rparr> of
           Inl e \<Rightarrow> Threw e w1
         | Inr packet \<Rightarrow>
             driver_writeServiceCharacteristic ROBOT_SERVICE ROBOT_COMMAND packet cb w1)"

definition getChassisID :: "sphero \<Rightarrow> callback \<Rightarrow> world \<Rightarrow> outcome" where
  "getChassisID enc cb w =
     (let w1 = Logger_debug ''BB8Driver.getChassisID'' [] w
      in case api_getChassisID enc
                \<lparr>resetTimeout = Some True, requestAcknowledgement = Some True\<rparr> of
           Inl e \<Rightarrow> Threw e w1
         | Inr packet \<Rightarrow>
             driver_writeServiceCharacteristic ROBOT_SERVICE ROBOT_COMMAND packet cb w1)"

subsection \<open>The constructor (lines 26-56)\<close>

text \<open>
  A new driver, on a connection that has been given no request yet. The constructor of
  the framework's base class, called first, is outside the repository.
\<close>

definition BB8Driver :: world where
  "BB8Driver =
     \<lparr>this =
        \<lparr>commands =
           [(''wake'', M_wake),
            (''setTXPower'', M_setTXPower),
            (''setRGB'', M_setRGB),
            (''roll'', M_roll),
            (''stop'', M_stop),
            (''setRawMotorValues'', M_setRawMotorValues),
            (''setStabilization'', M_setStabilization)],
         MotorOff = 0,
         MotorForward = 1,
         MotorReverse = 2,
         MotorBrake = 3,
         MotorIgnore = 4,
         heading = JNum 0\<rparr>,
      trace = [],
      pending = []\<rparr>"

subsection \<open>Values used in the examples and in the comparison with the specification\<close>

text \<open>
  An encoder for concrete runs: the packet is the command's name and its arguments. Its
  \<open>roll\<close> refuses a heading that is not a number of 16 unsigned bits, as an encoder that
  writes the heading into two bytes does.
\<close>

definition sample_sphero :: sphero where
  "sample_sphero =
     \<lparr>api_setRGB = (\<lambda>color persist opts. Inr (JArr [JStr ''setRGB'', color, persist])),
      api_roll =
        (\<lambda>speed hdg rstate opts.
           case hdg of
             JNum n \<Rightarrow>
               (if 0 \<le> n \<and> n < 65536 then Inr (JArr [JStr ''roll'', speed, hdg, rstate])
                else Inl RangeError)
           | _ \<Rightarrow> Inl TypeError),
      api_setRawMotorValues =
        (\<lambda>lm lp rm rp opts. Inr (JArr [JStr ''setRawMotorValues'', lm, lp, rm, rp])),
      api_setStabilization = (\<lambda>enable opts. Inr (JArr [JStr ''setStabilization'', enable])),
      api_setDataStreaming =
        (\<lambda>n m smask pcnt mask2 opts.
           Inr (JArr [JStr ''setDataStreaming'', n, m, smask, pcnt, mask2])),
      api_getDeviceMode = (\<lambda>opts. Inr (JArr [JStr ''getDeviceMode''])),
      api_getRGB = (\<lambda>opts. Inr (JArr [JStr ''getRGB''])),
      core_getPowerState = (\<lambda>opts. Inr (JArr [JStr ''getPowerState''])),
      api_getChassisID = (\<lambda>opts. Inr (JArr [JStr ''getChassisID'']))\<rparr>"

text \<open>
  The public operations as the specification's operation table lists them (section 4.1);
  this list follows the specification, not the constructor.
\<close>

definition spec_operations :: "string list" where
  "spec_operations =
     [''wake'', ''setTXPower'', ''devModeOn'', ''setAntiDos'', ''setRGB'', ''roll'', ''stop'',
      ''setRawMotorValues'', ''setStabilization'', ''setDataStreaming'', ''getDeviceMode'',
      ''getRGB'', ''getChassisID'', ''getPowerState'']"

section \<open>Basic facts\<close>

lemmas primitive_defs =
  driver_writeServiceCharacteristic_def driver_readServiceCharacteristic_def
  getServiceCharacteristic_def connection_writeServiceCharacteristic_def
  connection_readServiceCharacteristic_def connection_getCharacteristic_def
  Logger_debug_def

text \<open>The loop of \<open>setAntiDos\<close> run on its string.\<close>

lemma setAntiDos_loop_bytes:
  "setAntiDos_loop ''011i3'' 0 [] = [JNum 0x30, JNum 0x31, JNum 0x31, JNum 0x69, JNum 0x33]"
  by (simp add: charCodeAt_def)

text \<open>The constructor on the two numbers that the driver itself writes.\<close>

lemma new_Buffer_1: "new_Buffer (JNum 1) = Inr (Buffer (JNum 1))"
  by (simp add: kMaxLength_def)

lemma new_Buffer_7: "new_Buffer (JNum 7) = Inr (Buffer (JNum 7))"
  by (simp add: kMaxLength_def)

text \<open>A buffer that was built is the one of the value given.\<close>

lemma new_Buffer_Inr: "new_Buffer v = Inr b \<Longrightarrow> b = Buffer v"
  by (cases v) (auto split: if_splits)

text \<open>The three BLE commands with fixed payloads, in one step each.\<close>

lemma wake_eq:
  "wake cb w = Returned (w\<lparr>trace := trace w @ [Debug ''BB8Driver.wake'' [],
       WriteServiceCharacteristic BLE_SERVICE BLE_WAKE (Buffer (JNum 1))],
     pending := pending w @ [Write_cb cb]\<rparr>)"
  by (simp add: wake_def primitive_defs new_Buffer_1 del: new_Buffer.simps)

lemma setTXPower_7_eq:
  "setTXPower (JNum 7) cb w = Returned (w\<lparr>trace := trace w @
       [Debug ''BB8Driver.setTXPower (level)'' [JNum 7],
        WriteServiceCharacteristic BLE_SERVICE BLE_TX_POWER (Buffer (JNum 7))],
     pending := pending w @ [Write_cb cb]\<rparr>)"
  by (simp add: setTXPower_def primitive_defs new_Buffer_7 del: new_Buffer.simps)

lemma setAntiDos_eq:
  "setAntiDos cb w = Returned (w\<lparr>trace := trace w @
       [Debug ''BB8Driver.setAntiDos'' [],
        WriteServiceCharacteristic BLE_SERVICE BLE_ANTI_DOS
          (Buffer (JArr [JNum 0x30, JNum 0x31, JNum 0x31, JNum 0x69, JNum 0x33]))],
     pending := pending w @ [Write_cb cb]\<rparr>)"
  by (simp add: setAntiDos_def setAntiDos_loop_bytes primitive_defs Let_def
        del: setAntiDos_loop.simps)

text \<open>
  Neither the write primitive nor any callback, whichever function expression it is,
  touches the driver's fields.
\<close>

lemma write_this: "this (state_of (driver_writeServiceCharacteristic s c v cb w)) = this w"
  by (simp add: primitive_defs split: sum.splits)

lemma invoke_this: "this (state_of (invoke cb args w)) = this w"
  by (induction cb arbitrary: args w) (simp_all add: setTXPower_7_eq wake_eq)

lemma connection_answers_this:
  "this (state_of (connection_answers i err data w)) = this w"
  by (simp add: connection_answers_def invoke_this)

text \<open>
  \<open>start\<close> calls what it is given, so a value that is not a function raises the
  TypeError that the write handler's test avoids.
\<close>

lemma start_non_function_throws:
  "start (NonFunction v) w = Threw TypeError (Logger_debug ''BB8Driver.start'' [] w)"
  by (simp add: start_def)

text \<open>The sample encoder's \<open>roll\<close> on headings inside and below its range.\<close>

lemma sample_roll_ok:
  "0 \<le> n \<Longrightarrow> n < 65536 \<Longrightarrow>
     api_roll sample_sphero a (JNum n) c opts = Inr (JArr [JStr ''roll'', a, JNum n, c])"
  by (simp add: sample_sphero_def)


section \<open>The claims\<close>

text \<open>
  C8. \<open>setAntiDos\<close>, in any state and with any callback, returns normally and gives the
  connection one more write: the bytes 0x30, 0x31, 0x31, 0x69, 0x33 (the character codes
  of "011i3"), to the anti-DoS characteristic of the BLE service.
\<close>

theorem setAntiDos_fixed_bytes:
  "setAntiDos cb w = Returned (state_of (setAntiDos cb w))
   \<and> writes (state_of (setAntiDos cb w)) =
     writes w @ [WriteServiceCharacteristic BLE_SERVICE BLE_ANTI_DOS
                   (Buffer (JArr [JNum 0x30, JNum 0x31, JNum 0x31, JNum 0x69, JNum 0x33]))]"
  by (simp add: setAntiDos_eq writes_def)




text \<open>
  C1. For every caller's function \<open>f\<close>, \<open>devModeOn\<close> makes three writes, one after the
  other. The call itself returns after the first: the anti-DoS bytes to the anti-DoS
  characteristic. The connection's answer to the first, whatever it is, makes the second:
  TX power 7 to the TX-power characteristic. The answer to the second makes the third:
  the value 1 to the wake characteristic. Up to there \<open>f\<close> has not been called. The
  answer \<open>(e3, d3)\<close> to the third makes no further write and calls \<open>f\<close> once, with
  \<open>(e3, d3)\<close>.
\<close>

theorem devModeOn_three_sequential_writes:
  "let n = length (pending w);
       w1 = state_of (devModeOn (UserFunction f) w);
       w2 = state_of (connection_answers n e1 d1 w1);
       w3 = state_of (connection_answers n e2 d2 w2);
       w4 = state_of (connection_answers n e3 d3 w3)
   in devModeOn (UserFunction f) w = Returned w1
    \<and> writes w1 = writes w @
        [WriteServiceCharacteristic BLE_SERVICE BLE_ANTI_DOS
           (Buffer (JArr [JNum 0x30, JNum 0x31, JNum 0x31, JNum 0x69, JNum 0x33]))]
    \<and> calls w1 = calls w
    \<and> connection_answers n e1 d1 w1 = Returned w2
    \<and> writes w2 = writes w1 @
        [WriteServiceCharacteristic BLE_SERVICE BLE_TX_POWER (Buffer (JNum 7))]
    \<and> calls w2 = calls w
    \<and> connection_answers n e2 d2 w2 = Returned w3
    \<and> writes w3 = writes w2 @
        [WriteServiceCharacteristic BLE_SERVICE BLE_WAKE (Buffer (JNum 1))]
    \<and> calls w3 = calls w
    \<and> connection_answers n e3 d3 w3 = Returned w4
    \<and> writes w4 = writes w @
        [WriteServiceCharacteristic BLE_SERVICE BLE_ANTI_DOS
           (Buffer (JArr [JNum 0x30, JNum 0x31, JNum 0x31, JNum 0x69, JNum 0x33])),
         WriteServiceCharacteristic BLE_SERVICE BLE_TX_POWER (Buffer (JNum 7)),
         WriteServiceCharacteristic BLE_SERVICE BLE_WAKE (Buffer (JNum 1))]
    \<and> calls w4 = calls w @ [Call f [e3, d3]]
    \<and> pending w4 = pending w"
  by (simp add: devModeOn_def setAntiDos_eq setTXPower_7_eq wake_eq Logger_debug_def
        writes_def calls_def Let_def connection_answers_def arg_def)

text \<open>
  C4. In the chain of \<open>devModeOn\<close>, with any callback, the answer to the anti-DoS write
  leads to the TX-power write and the answer to the TX-power write leads to the wake
  write, whatever \<open>(err, data)\<close> the connection reports: the outcome of each of the two
  answers is the one of an answer without error.
\<close>

theorem devModeOn_ignores_intermediate_results:
  "let n = length (pending w);
       w1 = state_of (devModeOn cb w);
       w2 = state_of (connection_answers n e1 d1 w1);
       w3 = state_of (connection_answers n e2 d2 w2)
   in devModeOn cb w = Returned w1
    \<and> connection_answers n e1 d1 w1 = connection_answers n JNull JUndefined w1
    \<and> connection_answers n e1 d1 w1 = Returned w2
    \<and> writes w2 = writes w1 @
        [WriteServiceCharacteristic BLE_SERVICE BLE_TX_POWER (Buffer (JNum 7))]
    \<and> connection_answers n e2 d2 w2 = connection_answers n JNull JUndefined w2
    \<and> connection_answers n e2 d2 w2 = Returned w3
    \<and> writes w3 = writes w2 @
        [WriteServiceCharacteristic BLE_SERVICE BLE_WAKE (Buffer (JNum 1))]"
  by (simp add: devModeOn_def setAntiDos_eq setTXPower_7_eq wake_eq Logger_debug_def
        writes_def Let_def connection_answers_def)



text \<open>
  C2. In every state whose heading field is \<open>h\<close>, \<open>stop\<close> does what
  \<open>roll(0, h, 1, cb)\<close> does: the same writes, the same waiting handlers, the same driver
  fields, and the same error if one is thrown. When the encoder builds the roll packet
  for speed 0, heading \<open>h\<close> and state 1 and \<^verbatim>\<open>new Buffer\<close> takes it, that is one write
  of this packet to the command characteristic of the robot service; when either throws,
  \<open>stop\<close> throws the same error and writes nothing.
\<close>

theorem stop_is_roll_zero:
  "heading (this w) = h \<Longrightarrow>
     (let opts = \<lparr>resetTimeout = Some True, requestAcknowledgement = None\<rparr>;
          rs = stop enc cb w;
          rr = roll enc (JNum 0) h (JNum 1) cb w
      in writes (state_of rs) = writes (state_of rr)
       \<and> pending (state_of rs) = pending (state_of rr)
       \<and> this (state_of rs) = this (state_of rr)
       \<and> thrown rs = thrown rr
       \<and> (case api_roll enc (JNum 0) h (JNum 1) opts of
             Inl e \<Rightarrow> thrown rs = Some e \<and> writes (state_of rs) = writes w
           | Inr packet \<Rightarrow>
               (case new_Buffer packet of
                  Inl e \<Rightarrow> thrown rs = Some e \<and> writes (state_of rs) = writes w
                | Inr b \<Rightarrow>
                    thrown rs = None
                  \<and> writes (state_of rs) = writes w @
                      [WriteServiceCharacteristic ROBOT_SERVICE ROBOT_COMMAND
                         (Buffer packet)])))"
  by (auto simp add: stop_def roll_def primitive_defs writes_def Let_def
        split: sum.splits dest: new_Buffer_Inr)

text \<open>
  The specification's example: after \<open>roll(50, 90, 1, ...)\<close> on a new driver the heading
  is 90, and \<open>stop\<close> then writes the roll packet for speed 0, heading 90, state 1.
\<close>

theorem stop_is_roll_zero_witness:
  "heading (this (state_of
      (roll sample_sphero (JNum 50) (JNum 90) (JNum 1) (UserFunction 0) BB8Driver))) = JNum 90
   \<and> writes (state_of (stop sample_sphero (UserFunction 1)
        (state_of
          (roll sample_sphero (JNum 50) (JNum 90) (JNum 1) (UserFunction 0) BB8Driver)))) =
      [WriteServiceCharacteristic ROBOT_SERVICE ROBOT_COMMAND
         (Buffer (JArr [JStr ''roll'', JNum 50, JNum 90, JNum 1])),
       WriteServiceCharacteristic ROBOT_SERVICE ROBOT_COMMAND
         (Buffer (JArr [JStr ''roll'', JNum 0, JNum 90, JNum 1]))]"
proof -
  let ?w = "state_of
    (roll sample_sphero (JNum 50) (JNum 90) (JNum 1) (UserFunction 0) BB8Driver)"
  have r: "\<And>a c opts. api_roll sample_sphero a (JNum 90) c opts =
      Inr (JArr [JStr ''roll'', a, JNum 90, c])"
    by (simp add: sample_roll_ok)
  have h: "heading (this ?w) = JNum 90"
    by (simp add: roll_def primitive_defs Let_def r)
  have w: "writes ?w = [WriteServiceCharacteristic ROBOT_SERVICE ROBOT_COMMAND
         (Buffer (JArr [JStr ''roll'', JNum 50, JNum 90, JNum 1]))]"
    by (simp add: roll_def primitive_defs Let_def writes_def BB8Driver_def r)
  have "writes (state_of (stop sample_sphero (UserFunction 1) ?w)) = writes ?w @
        [WriteServiceCharacteristic ROBOT_SERVICE ROBOT_COMMAND
           (Buffer (JArr [JStr ''roll'', JNum 0, JNum 90, JNum 1]))]"
  proof -
    have "thrown (stop sample_sphero (UserFunction 1) ?w) = None
        \<and> writes (state_of (stop sample_sphero (UserFunction 1) ?w)) = writes ?w @
            [WriteServiceCharacteristic ROBOT_SERVICE ROBOT_COMMAND
               (Buffer (JArr [JStr ''roll'', JNum 0, JNum 90, JNum 1]))]"
      using stop_is_roll_zero [OF h, of sample_sphero "UserFunction 1", unfolded Let_def,
              THEN conjunct2, THEN conjunct2, THEN conjunct2, THEN conjunct2]
      by (simp add: r)
    then show ?thesis
      by blast
  qed
  then show ?thesis
    using h by (simp only: w append_Cons append_Nil simp_thms)
qed

text \<open>
  C6, as the specification states it, fails: with the value \<open>undefined\<close> the write
  primitive throws a TypeError, from \<^verbatim>\<open>new Buffer(value)\<close>, although the callback is
  not a function and is never called.
\<close>

theorem write_counterexample:
  "driver_writeServiceCharacteristic BLE_SERVICE BLE_WAKE JUndefined (NonFunction JUndefined)
     BB8Driver = Threw TypeError BB8Driver"
  by (simp add: driver_writeServiceCharacteristic_def)

text \<open>
  C6, amended. The write primitive, for every service, every characteristic and every
  value from which \<^verbatim>\<open>new Buffer\<close> builds a buffer: with a callback that is not a
  function (\<open>undefined\<close> when it was left out), the call returns after its write, and the
  connection's answer returns without throwing and leaves no event, so \<open>(err, data)\<close> is
  dropped; with a caller's function \<open>f\<close>, the answer calls \<open>f\<close> with \<open>(err, data)\<close> as
  they came. For a value at which \<^verbatim>\<open>new Buffer\<close> throws, the primitive throws that
  error before the connection is called, whatever the callback is.
\<close>

theorem write_calls_back_iff_function:
  "let n = length (pending w);
       r1 = driver_writeServiceCharacteristic s c v (NonFunction x) w;
       r2 = driver_writeServiceCharacteristic s c v (UserFunction f) w;
       w1 = state_of r1;
       w2 = state_of r2
   in case new_Buffer v of
        Inr b \<Rightarrow>
          b = Buffer v
        \<and> r1 = Returned w1
        \<and> trace w1 = trace w @ [WriteServiceCharacteristic s c b]
        \<and> connection_answers n err data w1 = Returned (w1\<lparr>pending := pending w\<rparr>)
        \<and> r2 = Returned w2
        \<and> trace w2 = trace w @ [WriteServiceCharacteristic s c b]
        \<and> connection_answers n err data w2 =
            Returned (w2\<lparr>pending := pending w, trace := trace w2 @ [Call f [err, data]]\<rparr>)
      | Inl e \<Rightarrow> r1 = Threw e w \<and> r2 = Threw e w"
  by (auto simp add: primitive_defs Let_def connection_answers_def arg_def
        split: sum.splits dest: new_Buffer_Inr)

text \<open>
  The value 1 on a new driver, answered with \<open>("e", "d")\<close>: nothing but the write is
  seen with \<open>undefined\<close> as callback, and the call of the function with both values
  otherwise.
\<close>

theorem write_calls_back_iff_function_witness:
  "connection_answers 0 (JStr ''e'') (JStr ''d'')
      (state_of (driver_writeServiceCharacteristic BLE_SERVICE BLE_WAKE (JNum 1)
         (NonFunction JUndefined) BB8Driver)) =
     Returned (BB8Driver\<lparr>trace :=
       [WriteServiceCharacteristic BLE_SERVICE BLE_WAKE (Buffer (JNum 1))]\<rparr>)
   \<and> connection_answers 0 (JStr ''e'') (JStr ''d'')
      (state_of (driver_writeServiceCharacteristic BLE_SERVICE BLE_WAKE (JNum 1)
         (UserFunction 0) BB8Driver)) =
     Returned (BB8Driver\<lparr>trace :=
       [WriteServiceCharacteristic BLE_SERVICE BLE_WAKE (Buffer (JNum 1)),
        Call 0 [JStr ''e'', JStr ''d'']]\<rparr>)"
proof -
  have p0: "pending BB8Driver = []" "trace BB8Driver = []"
    by (simp_all add: BB8Driver_def)
  have s1: "state_of (driver_writeServiceCharacteristic BLE_SERVICE BLE_WAKE (JNum 1)
         (NonFunction JUndefined) BB8Driver)\<lparr>pending := []\<rparr> =
       BB8Driver\<lparr>trace :=
         [WriteServiceCharacteristic BLE_SERVICE BLE_WAKE (Buffer (JNum 1))]\<rparr>"
    by (simp add: primitive_defs new_Buffer_1 BB8Driver_def del: new_Buffer.simps)
  have s2: "state_of (driver_writeServiceCharacteristic BLE_SERVICE BLE_WAKE (JNum 1)
         (UserFunction 0) BB8Driver)\<lparr>pending := [], trace :=
           [WriteServiceCharacteristic BLE_SERVICE BLE_WAKE (Buffer (JNum 1)),
            Call 0 [JStr ''e'', JStr ''d'']]\<rparr> =
       BB8Driver\<lparr>trace :=
         [WriteServiceCharacteristic BLE_SERVICE BLE_WAKE (Buffer (JNum 1)),
          Call 0 [JStr ''e'', JStr ''d'']]\<rparr>"
    by (simp add: primitive_defs new_Buffer_1 BB8Driver_def del: new_Buffer.simps)
  show ?thesis
    using write_calls_back_iff_function
            [where v = "JNum 1" and w = BB8Driver and s = BLE_SERVICE and c = BLE_WAKE
               and x = JUndefined and f = 0 and err = "JStr ''e''" and data = "JStr ''d''"]
    by (simp add: Let_def new_Buffer_1 p0 s1 s2 del: new_Buffer.simps)
qed

text \<open>
  C7. \<open>getServiceCharacteristic\<close>, for every service and characteristic, asks the
  connection for the characteristic; when the connection answers \<open>(error, notifier)\<close>,
  the caller's function is called with the one argument \<open>error\<close> if \<open>error\<close> is truthy,
  and with the two arguments \<open>null\<close> and \<open>notifier\<close> otherwise.
\<close>

theorem getServiceCharacteristic_normalises:
  "let n = length (pending w);
       w1 = getServiceCharacteristic s c (UserFunction f) w
   in trace w1 = trace w @ [GetCharacteristic s c]
    \<and> connection_answers n error notifier w1 =
        Returned (w1\<lparr>pending := pending w,
                     trace := trace w1 @
                       [Call f (if truthy error then [error] else [JNull, notifier])]\<rparr>)"
  by (simp add: primitive_defs Let_def connection_answers_def arg_def)

text \<open>
  C10. The heading field is 0 in a new driver and \<open>roll\<close> stores its heading argument
  there. Every other operation leaves it as it was, whether it returns or throws:
  \<open>stop\<close>, the BLE commands, the other robot commands, the queries, \<open>start\<close> and
  \<open>halt\<close>, the three primitives of the BLE interface, and whatever the driver's handlers
  do when the connection answers.
\<close>

theorem heading_only_set_by_roll:
  "heading (this BB8Driver) = JNum 0
   \<and> heading (this (state_of (roll enc speed hdg rstate cb w))) = hdg
   \<and> heading (this (state_of (stop enc cb w))) = heading (this w)
   \<and> heading (this (state_of (wake cb w))) = heading (this w)
   \<and> heading (this (state_of (setTXPower level cb w))) = heading (this w)
   \<and> heading (this (state_of (devModeOn cb w))) = heading (this w)
   \<and> heading (this (state_of (setAntiDos cb w))) = heading (this w)
   \<and> heading (this (state_of (setRGB enc color persist cb w))) = heading (this w)
   \<and> heading (this (state_of (setRawMotorValues enc lm lp rm rp cb w))) = heading (this w)
   \<and> heading (this (state_of (setStabilization enc enable cb w))) = heading (this w)
   \<and> heading (this (state_of
        (setDataStreaming enc sensorRateDivisor frames smask packetCount mask2 cb w)))
       = heading (this w)
   \<and> heading (this (state_of (getDeviceMode enc cb w))) = heading (this w)
   \<and> heading (this (state_of (getRGB enc cb w))) = heading (this w)
   \<and> heading (this (state_of (getChassisID enc cb w))) = heading (this w)
   \<and> heading (this (state_of (getPowerState enc cb w))) = heading (this w)
   \<and> heading (this (state_of (start cb w))) = heading (this w)
   \<and> heading (this (state_of (halt cb w))) = heading (this w)
   \<and> heading (this (state_of (driver_writeServiceCharacteristic s c v cb w)))
       = heading (this w)
   \<and> heading (this (driver_readServiceCharacteristic s c cb w)) = heading (this w)
   \<and> heading (this (getServiceCharacteristic s c cb w)) = heading (this w)
   \<and> heading (this (state_of (connection_answers i err data w))) = heading (this w)"
  by (simp add: BB8Driver_def roll_def stop_def wake_def setTXPower_def devModeOn_def
        setAntiDos_def setRGB_def setRawMotorValues_def setStabilization_def
        setDataStreaming_def getDeviceMode_def getRGB_def getChassisID_def getPowerState_def
        start_def halt_def write_this Logger_debug_def
        driver_readServiceCharacteristic_def getServiceCharacteristic_def
        connection_readServiceCharacteristic_def connection_getCharacteristic_def
        Let_def invoke_this connection_answers_this
        split: sum.splits del: setAntiDos_loop.simps)

text \<open>
  C5, as the specification states it, fails on a new driver: \<open>setAntiDos\<close> is one of the
  operations of the specification's table, and the commands mapping has no entry for it.
\<close>

theorem commands_counterexample:
  "''setAntiDos'' \<in> set spec_operations
   \<and> map_of (commands (this BB8Driver)) ''setAntiDos'' = None"
  by (simp add: spec_operations_def BB8Driver_def)

text \<open>
  C5, amended. A new driver has \<open>start\<close> and \<open>halt\<close>, each of which logs and calls its
  callback with no argument, and a commands mapping that takes \<open>wake\<close>, \<open>setTXPower\<close>,
  \<open>setRGB\<close>, \<open>roll\<close>, \<open>stop\<close>, \<open>setRawMotorValues\<close> and \<open>setStabilization\<close> to the
  function of that name; it has no entry for \<open>setAntiDos\<close>, \<open>setDataStreaming\<close>,
  \<open>getDeviceMode\<close>, \<open>getRGB\<close>, \<open>getChassisID\<close> and \<open>getPowerState\<close>.
\<close>

theorem commands_registered:
  "map_of (commands (this BB8Driver)) ''wake'' = Some M_wake
   \<and> map_of (commands (this BB8Driver)) ''setTXPower'' = Some M_setTXPower
   \<and> map_of (commands (this BB8Driver)) ''setRGB'' = Some M_setRGB
   \<and> map_of (commands (this BB8Driver)) ''roll'' = Some M_roll
   \<and> map_of (commands (this BB8Driver)) ''stop'' = Some M_stop
   \<and> map_of (commands (this BB8Driver)) ''setRawMotorValues'' = Some M_setRawMotorValues
   \<and> map_of (commands (this BB8Driver)) ''setStabilization'' = Some M_setStabilization
   \<and> map_of (commands (this BB8Driver)) ''setAntiDos'' = None
   \<and> map_of (commands (this BB8Driver)) ''setDataStreaming'' = None
   \<and> map_of (commands (this BB8Driver)) ''getDeviceMode'' = None
   \<and> map_of (commands (this BB8Driver)) ''getRGB'' = None
   \<and> map_of (commands (this BB8Driver)) ''getChassisID'' = None
   \<and> map_of (commands (this BB8Driver)) ''getPowerState'' = None
   \<and> start (UserFunction f) w =
        Returned (w\<lparr>trace := trace w @ [Debug ''BB8Driver.start'' [], Call f []]\<rparr>)
   \<and> halt (UserFunction f) w =
        Returned (w\<lparr>trace := trace w @ [Debug ''BB8Driver.halt'' [], Call f []]\<rparr>)"
  by (simp add: BB8Driver_def start_def halt_def Logger_debug_def)

end
